theory Spec2Isabelle
  imports Main
begin

section \<open>Python values and exceptions\<close>

text \<open>
  The program is Python. An exception is a value with a class and a message (what
  \<open>str(e)\<close> gives). Only the classes that the handlers of \<open>main.pyw\<close> tell apart are
  named; \<open>Exception_c\<close> stands for an instance of any other class derived from
  \<open>Exception\<close>. \<open>IOError\<close> is Python 3's alias of \<open>OSError\<close>;
  \<open>UnicodeEncodeError\<close> derives from \<open>ValueError\<close>.
  \<open>KeyboardInterrupt\<close> and \<open>SystemExit\<close> derive from \<open>BaseException\<close> only.
\<close>

datatype exn_class =
    Exception_c
  | OSError_c
  | ImportError_c
  | ValueError_c
  | UnicodeEncodeError_c
  | AttributeError_c
  | FailSafeException_c
  | KeyboardInterrupt_c
  | SystemExit_c

datatype pyexn = Exn (cls: exn_class) (msg: string)

definition issubclass :: "exn_class \<Rightarrow> exn_class \<Rightarrow> bool" where
  "issubclass c d =
     (c = d
      \<or> (d = Exception_c \<and> c \<noteq> KeyboardInterrupt_c \<and> c \<noteq> SystemExit_c)
      \<or> (d = ValueError_c \<and> c = UnicodeEncodeError_c))"

text \<open>\<open>except (A, B)\<close> catches an exception that is an instance of one of the listed classes.\<close>

definition isinstance :: "pyexn \<Rightarrow> exn_class list \<Rightarrow> bool" where
  "isinstance e cs = list_ex (issubclass (cls e)) cs"




text \<open>\<open>str.split(sep)\<close> with a one-character separator: always at least one piece.\<close>

fun str_split :: "char \<Rightarrow> string \<Rightarrow> string list" where
  "str_split sep [] = [[]]"
| "str_split sep (c # cs) =
     (if c = sep then [] # str_split sep cs
      else (case str_split sep cs of
              [] \<Rightarrow> [[c]]
            | l # ls \<Rightarrow> (c # l) # ls))"


section \<open>Printing\<close>

text \<open>
  A text is a list of bytes, the UTF-8 encoding of the Python string. Four of the
  program's messages start with characters outside ASCII: the literals of lines 131, 222
  and 225 with U+F8FF, U+00FC, U+00EA, U+00B1 (\<open>pictograph\<close>), the literal of line 140
  with U+201A, U+00FA, U+00EC (\<open>check_mark\<close>).
\<close>

definition pictograph :: string where
  "pictograph =
     [CHR 0xEF, CHR 0xA3, CHR 0xBF, CHR 0xC3, CHR 0xBC, CHR 0xC3, CHR 0xAA, CHR 0xC2, CHR 0xB1]"


definition non_ascii :: "string \<Rightarrow> bool" where
  "non_ascii s = list_ex (\<lambda>c. 128 \<le> (of_char c :: nat)) s"

text \<open>
  \<open>print(s)\<close> on a standard output described by \<open>encodes\<close>: \<open>encodes s\<close> says that
  \<open>sys.stdout\<close> can encode every character of \<open>s\<close> (UTF-8 can, ASCII and cp1252 cannot
  encode U+F8FF; a process without a standard output takes every text, \<open>print\<close> doing
  nothing there). A text of ASCII characters goes through on every standard output. A
  text that cannot be encoded makes \<open>print\<close> raise \<open>UnicodeEncodeError\<close>, whose own text is
  ASCII.
\<close>

definition encode_error :: pyexn where
  "encode_error = Exn UnicodeEncodeError_c ''codec cannot encode character''"

definition py_print :: "(string \<Rightarrow> bool) \<Rightarrow> string \<Rightarrow> pyexn + unit" where
  "py_print encodes s =
     (if non_ascii s \<and> \<not> encodes s then Inl encode_error else Inr ())"

section \<open>Typing the clipboard: \<open>type_clipboard_text\<close>\<close>

text \<open>
  The calls the typer makes on its collaborators, in order: \<open>time.sleep(TYPING_DELAY)\<close>,
  \<open>print\<close>, \<open>pyautogui.write(line, interval=TYPING_INTERVAL)\<close> (one batch of character
  keystrokes) and \<open>pyautogui.hotkey('shift', 'enter')\<close>. A call is listed when it has
  returned; a call that raises is not.
\<close>

datatype call =
    Sleep
  | Print string
  | Write string
  | Hotkey "string list"








text \<open>
  The two handlers of the \<open>try\<close>: \<open>except (pyautogui.FailSafeException,
  KeyboardInterrupt)\<close> first, then \<open>except Exception\<close>. An exception neither catches
  leaves the function. A handler prints an ASCII literal followed by the text of the
  exception.
\<close>

definition except_typing :: "pyexn \<Rightarrow> call list \<Rightarrow> (pyexn + unit) \<times> call list" where
  "except_typing e tr =
     (if isinstance e [FailSafeException_c, KeyboardInterrupt_c]
        then (Inr (), tr @ [Print (''Typing interrupted: '' @ msg e)])
      else if isinstance e [Exception_c]
        then (Inr (), tr @ [Print (''Error typing clipboard: '' @ msg e)])
      else (Inl e, tr))"













section \<open>The single-instance guard: \<open>ensure_single_instance\<close> and \<open>release_lock\<close>\<close>

text \<open>
  The machine keeps, for the one path \<open>LOCK_FILE\<close>, whether the file exists and which
  open file holds the exclusive advisory lock on it: a process id and the file object of
  that process. Both \<open>fcntl.flock\<close> and \<open>msvcrt.locking\<close> tie the lock to the open file:
  it goes when the holder unlocks, and when the holder closes the file.
\<close>

record os_state =
  lock_holder :: "(nat \<times> nat) option"
  lock_file_exists :: bool

text \<open>
  A process has the module's global \<open>LOCK_FILE_HANDLE\<close> (\<open>None\<close>, or a reference to a
  file object), its file objects (object \<open>f\<close> is open iff \<open>files ! f\<close>), and whether
  \<open>release_lock\<close> is registered with \<open>atexit\<close>. The global and the \<open>with\<close> variable
  \<open>lock_file\<close> refer to the same object, so both are the same index.
\<close>

record proc_state =
  LOCK_FILE_HANDLE :: "nat option"
  files :: "bool list"
  atexit_registered :: bool

type_synonym world = "os_state \<times> proc_state"

text \<open>
  What the platform does during one call: the value of \<open>sys.platform == 'win32'\<close>,
  whether \<open>import msvcrt\<close> / \<open>import fcntl\<close> find the module, and whether \<open>open\<close>, the
  lock call, the unlock call, \<open>close\<close> and \<open>os.remove\<close> fail with an \<open>OSError\<close> for a reason
  of their own (permissions, a full disk, a device error).
\<close>

record lock_env =
  win32 :: bool
  msvcrt_importable :: bool
  fcntl_importable :: bool
  open_fails :: bool
  lock_fails :: bool
  unlock_fails :: bool
  close_fails :: bool
  remove_fails :: bool

definition is_open :: "proc_state \<Rightarrow> nat \<Rightarrow> bool" where
  "is_open p f = (f < length (files p) \<and> files p ! f)"

text \<open>\<open>open(LOCK_FILE, 'w', encoding='utf-8')\<close>: creates the file, gives a new file object.\<close>

definition open_lock_file :: "lock_env \<Rightarrow> world \<Rightarrow> (pyexn + nat) \<times> world" where
  "open_lock_file env w =
     (if open_fails env then (Inl (Exn OSError_c ''open failed''), w)
      else (Inr (length (files (snd w))),
            ((fst w)\<lparr>lock_file_exists := True\<rparr>,
             (snd w)\<lparr>files := files (snd w) @ [True]\<rparr>)))"

text \<open>\<open>f.fileno()\<close>, which \<open>fcntl.flock(f, ...)\<close> calls too: a closed file has none.\<close>

definition fileno :: "proc_state \<Rightarrow> nat \<Rightarrow> pyexn + nat" where
  "fileno p f =
     (if is_open p f then Inr f
      else Inl (Exn ValueError_c ''I/O operation on closed file''))"

text \<open>
  The non-blocking exclusive lock: \<open>msvcrt.locking(f.fileno(), msvcrt.LK_NBLCK, 1)\<close> and
  \<open>fcntl.flock(f, fcntl.LOCK_EX | fcntl.LOCK_NB)\<close>. It fails with an \<open>OSError\<close> when
  another open file holds the lock.
\<close>

definition os_try_lock :: "lock_env \<Rightarrow> nat \<Rightarrow> nat \<Rightarrow> world \<Rightarrow> (pyexn + unit) \<times> world" where
  "os_try_lock env pid f w =
     (case fileno (snd w) f of
        Inl e \<Rightarrow> (Inl e, w)
      | Inr fd \<Rightarrow>
          (if lock_fails env then (Inl (Exn OSError_c ''lock failed''), w)
           else
             (case lock_holder (fst w) of
                None \<Rightarrow> (Inr (), ((fst w)\<lparr>lock_holder := Some (pid, f)\<rparr>, snd w))
              | Some h \<Rightarrow>
                  (if h = (pid, f) then (Inr (), w)
                   else (Inl (Exn OSError_c ''resource temporarily unavailable''), w)))))"

definition msvcrt_locking_NBLCK ::
  "lock_env \<Rightarrow> nat \<Rightarrow> nat \<Rightarrow> world \<Rightarrow> (pyexn + unit) \<times> world" where
  "msvcrt_locking_NBLCK = os_try_lock"

definition fcntl_flock_EX_NB ::
  "lock_env \<Rightarrow> nat \<Rightarrow> nat \<Rightarrow> world \<Rightarrow> (pyexn + unit) \<times> world" where
  "fcntl_flock_EX_NB = os_try_lock"

text \<open>
  The unlock: \<open>msvcrt.locking(f.fileno(), msvcrt.LK_UNLCK, 1)\<close> and
  \<open>fcntl.flock(f, fcntl.LOCK_UN)\<close>.
\<close>

definition os_unlock :: "lock_env \<Rightarrow> nat \<Rightarrow> nat \<Rightarrow> world \<Rightarrow> (pyexn + unit) \<times> world" where
  "os_unlock env pid f w =
     (case fileno (snd w) f of
        Inl e \<Rightarrow> (Inl e, w)
      | Inr fd \<Rightarrow>
          (if unlock_fails env then (Inl (Exn OSError_c ''unlock failed''), w)
           else if lock_holder (fst w) = Some (pid, f)
             then (Inr (), ((fst w)\<lparr>lock_holder := None\<rparr>, snd w))
           else (Inr (), w)))"

definition msvcrt_locking_UNLCK ::
  "lock_env \<Rightarrow> nat \<Rightarrow> nat \<Rightarrow> world \<Rightarrow> (pyexn + unit) \<times> world" where
  "msvcrt_locking_UNLCK = os_unlock"

definition fcntl_flock_UN ::
  "lock_env \<Rightarrow> nat \<Rightarrow> nat \<Rightarrow> world \<Rightarrow> (pyexn + unit) \<times> world" where
  "fcntl_flock_UN = os_unlock"

text \<open>
  \<open>f.close()\<close>: nothing on a closed file. Otherwise the object is closed and the lock it
  held is gone, also when the call then reports an error.
\<close>

definition file_close :: "lock_env \<Rightarrow> nat \<Rightarrow> nat \<Rightarrow> world \<Rightarrow> (pyexn + unit) \<times> world" where
  "file_close env pid f w =
     (if \<not> is_open (snd w) f then (Inr (), w)
      else
        (let w' = ((fst w)\<lparr>lock_holder :=
                      (if lock_holder (fst w) = Some (pid, f) then None
                       else lock_holder (fst w))\<rparr>,
                   (snd w)\<lparr>files := (files (snd w))[f := False]\<rparr>)
         in if close_fails env then (Inl (Exn OSError_c ''close failed''), w')
            else (Inr (), w')))"

text \<open>\<open>os.remove(LOCK_FILE)\<close>.\<close>

definition os_remove :: "lock_env \<Rightarrow> world \<Rightarrow> (pyexn + unit) \<times> world" where
  "os_remove env w =
     (if remove_fails env \<or> \<not> lock_file_exists (fst w)
        then (Inl (Exn OSError_c ''remove failed''), w)
      else (Inr (), ((fst w)\<lparr>lock_file_exists := False\<rparr>, snd w)))"

text \<open>
  \<open>try: body except (C1, ...): handler\<close>: the handler runs, from the state the body left,
  when the body raised an instance of a listed class; any other outcome is the body's.
\<close>

definition try_except ::
  "(pyexn + 'a) \<times> 's \<Rightarrow> exn_class list \<Rightarrow> ('s \<Rightarrow> (pyexn + 'a) \<times> 's) \<Rightarrow> (pyexn + 'a) \<times> 's" where
  "try_except body cs handler =
     (case body of
        (Inl e, s) \<Rightarrow> (if isinstance e cs then handler s else (Inl e, s))
      | (Inr v, s) \<Rightarrow> (Inr v, s))"

text \<open>
  The \<open>with open(...) as lock_file:\<close> block of either branch, given the branch's lock
  call. The body stores the object in the global, locks through the global, registers
  \<open>release_lock\<close> and returns \<open>True\<close>, or returns \<open>False\<close> on \<open>IOError\<close>. Leaving the block,
  by \<open>return\<close> as by an exception, closes \<open>lock_file\<close>; an error of that close replaces
  the block's outcome.
\<close>

definition with_open_lock_file ::
  "(lock_env \<Rightarrow> nat \<Rightarrow> nat \<Rightarrow> world \<Rightarrow> (pyexn + unit) \<times> world) \<Rightarrow>
   lock_env \<Rightarrow> nat \<Rightarrow> world \<Rightarrow> (pyexn + bool) \<times> world" where
  "with_open_lock_file lock_call env pid w =
     (case open_lock_file env w of
        (Inl e, w1) \<Rightarrow> (Inl e, w1)
      | (Inr lock_file, w1) \<Rightarrow>
          (let w2 = (fst w1, (snd w1)\<lparr>LOCK_FILE_HANDLE := Some lock_file\<rparr>);
               body =
                 try_except
                   (case LOCK_FILE_HANDLE (snd w2) of
                      None \<Rightarrow> (Inl (Exn AttributeError_c ''NoneType has no fileno''), w2)
                    | Some h \<Rightarrow>
                        (case lock_call env pid h w2 of
                           (Inl e, w3) \<Rightarrow> (Inl e, w3)
                         | (Inr u, w3) \<Rightarrow>
                             (Inr True, (fst w3, (snd w3)\<lparr>atexit_registered := True\<rparr>))))
                   [OSError_c]
                   (\<lambda>s. (Inr False, s))
           in (case file_close env pid lock_file (snd body) of
                 (Inl e, w5) \<Rightarrow> (Inl e, w5)
               | (Inr u, w5) \<Rightarrow> (fst body, w5))))"

definition ensure_single_instance :: "lock_env \<Rightarrow> nat \<Rightarrow> world \<Rightarrow> (pyexn + bool) \<times> world" where
  "ensure_single_instance env pid w =
     (if win32 env then
        try_except
          (if \<not> msvcrt_importable env then (Inl (Exn ImportError_c ''No module named msvcrt''), w)
           else try_except (with_open_lock_file msvcrt_locking_NBLCK env pid w)
                  [OSError_c, OSError_c] (\<lambda>s. (Inr False, s)))
          [ImportError_c]
          (\<lambda>s. (Inr False, s))
      else
        try_except
          (if \<not> fcntl_importable env then (Inl (Exn ImportError_c ''No module named fcntl''), w)
           else try_except (with_open_lock_file fcntl_flock_EX_NB env pid w)
                  [OSError_c, OSError_c] (\<lambda>s. (Inr False, s)))
          [ImportError_c]
          (\<lambda>s. (Inr False, s)))"

text \<open>
  \<open>release_lock\<close>. \<open>if LOCK_FILE_HANDLE:\<close> is false for \<open>None\<close> and true for a file
  object, open or closed. Every handler is \<open>pass\<close>.
\<close>

definition platform_unlock :: "lock_env \<Rightarrow> nat \<Rightarrow> nat \<Rightarrow> world \<Rightarrow> (pyexn + unit) \<times> world" where
  "platform_unlock env pid h w =
     (if win32 env then
        try_except
          (if \<not> msvcrt_importable env then (Inl (Exn ImportError_c ''No module named msvcrt''), w)
           else try_except (msvcrt_locking_UNLCK env pid h w)
                  [OSError_c, OSError_c] (\<lambda>s. (Inr (), s)))
          [ImportError_c]
          (\<lambda>s. (Inr (), s))
      else
        try_except
          (if \<not> fcntl_importable env then (Inl (Exn ImportError_c ''No module named fcntl''), w)
           else try_except (fcntl_flock_UN env pid h w)
                  [OSError_c, OSError_c] (\<lambda>s. (Inr (), s)))
          [ImportError_c]
          (\<lambda>s. (Inr (), s)))"

definition release_lock :: "lock_env \<Rightarrow> nat \<Rightarrow> world \<Rightarrow> (pyexn + unit) \<times> world" where
  "release_lock env pid w =
     (case LOCK_FILE_HANDLE (snd w) of
        None \<Rightarrow> (Inr (), w)
      | Some h \<Rightarrow>
          try_except
            (case platform_unlock env pid h w of
               (Inl e, w1) \<Rightarrow> (Inl e, w1)
             | (Inr u, w1) \<Rightarrow>
                 (case file_close env pid h w1 of
                    (Inl e, w2) \<Rightarrow> (Inl e, w2)
                  | (Inr u, w2) \<Rightarrow>
                      try_except (os_remove env w2) [OSError_c, OSError_c] (\<lambda>s. (Inr (), s))))
            [OSError_c, OSError_c]
            (\<lambda>s. (Inr (), s)))"

text \<open>A process that has just started, on a machine where nothing holds the lock.\<close>

definition fresh_proc :: proc_state where
  "fresh_proc = \<lparr>LOCK_FILE_HANDLE = None, files = [], atexit_registered = False\<rparr>"

definition idle_os :: os_state where
  "idle_os = \<lparr>lock_holder = None, lock_file_exists = False\<rparr>"

text \<open>A call during which every platform call works; \<open>w32\<close> picks the branch.\<close>

definition sound_env :: "bool \<Rightarrow> lock_env" where
  "sound_env w32 =
     \<lparr>win32 = w32, msvcrt_importable = w32, fcntl_importable = (\<not> w32),
      open_fails = False, lock_fails = False, unlock_fails = False,
      close_fails = False, remove_fails = False\<rparr>"

text \<open>The handle is not an open file: it is \<open>None\<close> or a closed file object.\<close>

definition handle_closed :: "proc_state \<Rightarrow> bool" where
  "handle_closed p =
     (case LOCK_FILE_HANDLE p of None \<Rightarrow> True | Some f \<Rightarrow> \<not> is_open p f)"

text \<open>Another process holds the lock on \<open>LOCK_FILE\<close>.\<close>

definition held_by_other :: "nat \<Rightarrow> os_state \<Rightarrow> bool" where
  "held_by_other pid os =
     (case lock_holder os of None \<Rightarrow> False | Some h \<Rightarrow> fst h \<noteq> pid)"

text \<open>The locking module of the host's branch cannot be imported.\<close>

definition primitive_unavailable :: "lock_env \<Rightarrow> bool" where
  "primitive_unavailable env =
     (if win32 env then \<not> msvcrt_importable env else \<not> fcntl_importable env)"

text \<open>
  What one call of the guard comes to when the module is there and \<open>open\<close> works: the
  lock is granted unless the lock call fails or another open file holds it, and on the way
  out of the \<open>with\<close> block the new file object is closed and its lock released.
\<close>

definition granted :: "lock_env \<Rightarrow> nat \<Rightarrow> world \<Rightarrow> bool" where
  "granted env pid w =
     (\<not> lock_fails env \<and>
      (lock_holder (fst w) = None \<or> lock_holder (fst w) = Some (pid, length (files (snd w)))))"

definition after_with :: "lock_env \<Rightarrow> nat \<Rightarrow> world \<Rightarrow> world" where
  "after_with env pid w =
     ((fst w)\<lparr>lock_holder :=
                (if granted env pid w \<or> lock_holder (fst w) = Some (pid, length (files (snd w)))
                 then None else lock_holder (fst w)),
              lock_file_exists := True\<rparr>,
      (snd w)\<lparr>LOCK_FILE_HANDLE := Some (length (files (snd w))),
              files := files (snd w) @ [False],
              atexit_registered := (atexit_registered (snd w) \<or> granted env pid w)\<rparr>)"

text \<open>A call during which the module is there and \<open>open\<close>, the lock call and \<open>close\<close> work.\<close>

definition sound :: "lock_env \<Rightarrow> bool" where
  "sound env =
     (\<not> primitive_unavailable env \<and> \<not> open_fails env \<and> \<not> lock_fails env \<and> \<not> close_fails env)"

text \<open>A machine on which file object 0 of process 1 holds the lock.\<close>

definition held_os :: os_state where
  "held_os = \<lparr>lock_holder = Some (1, 0), lock_file_exists = True\<rparr>"

subsection \<open>Several processes on one machine\<close>

text \<open>
  The processes share the machine's lock table and have each their own globals. A
  startup attempt is one process running \<open>ensure_single_instance\<close>; the attempts of a
  list run one after the other, each to its return, the processes staying alive.
\<close>

record machine =
  os :: os_state
  procs :: "nat \<Rightarrow> proc_state"

definition boot :: machine where
  "boot = \<lparr>os = idle_os, procs = (\<lambda>pid. fresh_proc)\<rparr>"

definition startup_attempt :: "lock_env \<Rightarrow> nat \<Rightarrow> machine \<Rightarrow> (pyexn + bool) \<times> machine" where
  "startup_attempt env pid m =
     (case ensure_single_instance env pid (os m, procs m pid) of
        (r, w) \<Rightarrow> (r, \<lparr>os = fst w, procs = (procs m)(pid := snd w)\<rparr>))"

fun startup_attempts :: "(lock_env \<times> nat) list \<Rightarrow> machine \<Rightarrow> (pyexn + bool) list \<times> machine" where
  "startup_attempts [] m = ([], m)"
| "startup_attempts (a # as) m =
     (case startup_attempt (fst a) (snd a) m of
        (r, m1) \<Rightarrow> (case startup_attempts as m1 of (rs, m2) \<Rightarrow> (r # rs, m2)))"

section \<open>The entry point\<close>

text \<open>
  When the interpreter exits it runs what \<open>atexit\<close> holds: \<open>release_lock\<close> if the guard
  registered it. An exception out of such a callback is printed and dropped; it does not
  change the exit status.
\<close>

definition at_exit :: "lock_env \<Rightarrow> nat \<Rightarrow> world \<Rightarrow> world" where
  "at_exit env pid w =
     (if atexit_registered (snd w) then snd (release_lock env pid w) else w)"

text \<open>
  What the \<open>__main__\<close> block does after the guard has answered: the calls it makes, in
  order (a print is listed when it has returned), and the status the process exits
  with. \<open>sys.exit(0)\<close> at module level ends the process with status 0; an exception
  that nothing catches, out of the guard or out of a \<open>print\<close>, ends it with status 1.
  \<open>run_tray\<close> is the tray shell's loop, which decides the status of a running instance.
  \<open>encodes\<close> describes the standard output.
\<close>

datatype main_call =
    MPrint string
  | StartListenerThread
  | RunTray

text \<open>The literals of lines 222 and 225, the latter with \<open>HOTKEY\<close> filled in.\<close>

definition already_running_msg :: string where
  "already_running_msg = pictograph @ '' CopyCat is already running! Exiting this instance.''"

definition running_msg :: string where
  "running_msg =
     pictograph @ '' CopyCat is running in the tray. Press <ctrl>+<alt>+t to type clipboard.''"

definition main ::
  "(string \<Rightarrow> bool) \<Rightarrow> lock_env \<Rightarrow> int \<Rightarrow> nat \<Rightarrow> world \<Rightarrow> (main_call list \<times> int) \<times> world" where
  "main encodes env tray_status pid w =
     (case ensure_single_instance env pid w of
        (Inl e, w1) \<Rightarrow> (([], 1), at_exit env pid w1)
      | (Inr single, w1) \<Rightarrow>
          (if \<not> single then
             (case py_print encodes already_running_msg of
                Inl e \<Rightarrow> (([], 1), at_exit env pid w1)
              | Inr u \<Rightarrow> (([MPrint already_running_msg], 0), at_exit env pid w1))
           else
             (case py_print encodes running_msg of
                Inl e \<Rightarrow> (([], 1), at_exit env pid w1)
              | Inr u \<Rightarrow>
                  (([MPrint running_msg, StartListenerThread, RunTray], tray_status),
                   at_exit env pid w1))))"

section \<open>The hotkey listener\<close>

datatype 'k key_event = Press 'k | Release 'k

text \<open>
  Modelled from the spec: \<open>keyboard.HotKey.press\<close>. \<open>keyboard.HotKey\<close>, the class of the
  \<open>pynput\<close> package whose \<open>press\<close> and \<open>release\<close> methods keep the chord state and
  call the activation callback, is not among the repository's sources. The spec's state
  machine: a chord member goes from released to pressed on a press and back on a
  release; the state is the set of chord members that are pressed; the chord is complete
  when all members are pressed; the callback fires on the transition into complete,
  never while already complete. \<open>hotkey_press\<close> returns the new state and whether the
  callback fired.
\<close>

definition hotkey_press :: "'k set \<Rightarrow> 'k \<Rightarrow> 'k set \<Rightarrow> 'k set \<times> bool" where
  "hotkey_press keys k st =
     (if k \<in> keys \<and> k \<notin> st then (insert k st, insert k st = keys) else (st, False))"

text \<open>
  Modelled from the spec: \<open>keyboard.HotKey.release\<close> of the \<open>pynput\<close> package, not
  among the repository's sources. The spec: a chord member goes from pressed to released
  on a release.
\<close>

definition hotkey_release :: "'k set \<Rightarrow> 'k \<Rightarrow> 'k set \<Rightarrow> 'k set" where
  "hotkey_release keys k st = st - {k}"

text \<open>
  \<open>start_hotkey_listener\<close>: every raw key event goes through \<open>l.canonical\<close> and then to
  \<open>hotkey.press\<close> or \<open>hotkey.release\<close> (\<open>for_canonical\<close>). The result says, for each
  event, whether \<open>on_activate\<close> ran at it.
\<close>

definition for_canonical :: "('r \<Rightarrow> 'k) \<Rightarrow> ('k \<Rightarrow> 'a) \<Rightarrow> 'r \<Rightarrow> 'a" where
  "for_canonical canonical f = (\<lambda>k. f (canonical k))"

fun listener :: "('r \<Rightarrow> 'k) \<Rightarrow> 'k set \<Rightarrow> 'r key_event list \<Rightarrow> 'k set \<Rightarrow> bool list" where
  "listener canonical keys [] st = []"
| "listener canonical keys (Press r # evs) st =
     (case for_canonical canonical (hotkey_press keys) r st of
        (st', fired) \<Rightarrow> fired # listener canonical keys evs st')"
| "listener canonical keys (Release r # evs) st =
     False # listener canonical keys evs (for_canonical canonical (hotkey_release keys) r st)"

text \<open>
  The keys that are down according to the canonical events, and the events at which the
  chord becomes complete: all members down after the event, not all before it. These are
  the starts of the maximal intervals in which the whole chord is down.
\<close>

fun held_after :: "'k set \<Rightarrow> 'k key_event \<Rightarrow> 'k set" where
  "held_after P (Press k) = insert k P"
| "held_after P (Release k) = P - {k}"

fun canonical_event :: "('r \<Rightarrow> 'k) \<Rightarrow> 'r key_event \<Rightarrow> 'k key_event" where
  "canonical_event canonical (Press r) = Press (canonical r)"
| "canonical_event canonical (Release r) = Release (canonical r)"

fun completions :: "'k set \<Rightarrow> 'k key_event list \<Rightarrow> 'k set \<Rightarrow> bool list" where
  "completions keys [] P = []"
| "completions keys (e # evs) P =
     (keys \<subseteq> held_after P e \<and> \<not> keys \<subseteq> P) # completions keys evs (held_after P e)"

fun releases_member :: "'k set \<Rightarrow> 'k key_event \<Rightarrow> bool" where
  "releases_member keys (Press k) = False"
| "releases_member keys (Release k) = (k \<in> keys)"

text \<open>
  The chord is complete after each event or not; \<open>maximal_runs prev bs\<close> counts the
  maximal runs of \<open>True\<close> that start inside \<open>bs\<close>, \<open>prev\<close> being the value before it.
\<close>

fun complete_signal :: "'k set \<Rightarrow> 'k key_event list \<Rightarrow> 'k set \<Rightarrow> bool list" where
  "complete_signal keys [] P = []"
| "complete_signal keys (e # evs) P =
     (keys \<subseteq> held_after P e) # complete_signal keys evs (held_after P e)"

fun maximal_runs :: "bool \<Rightarrow> bool list \<Rightarrow> nat" where
  "maximal_runs prev [] = 0"
| "maximal_runs prev (b # bs) = (if b \<and> \<not> prev then 1 else 0) + maximal_runs b bs"

text \<open>
  Modelled from the spec: \<open>keyboard.HotKey.parse\<close> and the listener's \<open>canonical\<close>
  belong to \<open>pynput\<close> and are not among the repository's sources. An example keyboard
  for \<open>HOTKEY = '<ctrl>+<alt>+t'\<close>: the raw keys a listener may report, the canonical
  key of each (the spec: left and right modifiers are equivalent), and the chord the
  hotkey specification parses into (the spec: control, alt and "t").
\<close>

datatype raw_key = Ctrl_l | Ctrl_r | Alt_l | Alt_r | Char_t | Char_x

datatype chord_key = Ctrl | Alt | Key_t | Key_x

fun canonical_key :: "raw_key \<Rightarrow> chord_key" where
  "canonical_key Ctrl_l = Ctrl"
| "canonical_key Ctrl_r = Ctrl"
| "canonical_key Alt_l = Alt"
| "canonical_key Alt_r = Alt"
| "canonical_key Char_t = Key_t"
| "canonical_key Char_x = Key_x"

definition HOTKEY :: "chord_key set" where
  "HOTKEY = {Ctrl, Alt, Key_t}"

section \<open>Properties of the typer\<close>

subsection \<open>Splitting into lines\<close>




lemma str_split_no_sep: "l \<in> set (str_split sep s) \<Longrightarrow> sep \<notin> set l"
  by (induction s arbitrary: l) (auto split: list.splits if_splits)

subsection \<open>The loop when no call raises\<close>








subsection \<open>Printing\<close>

lemma non_ascii_pictograph: "non_ascii (pictograph @ s)"
  by (simp add: non_ascii_def pictograph_def)





lemma py_print_running_msg:
  "py_print enc running_msg = (if enc running_msg then Inr () else Inl encode_error)"
  by (simp add: py_print_def running_msg_def non_ascii_pictograph)



subsection \<open>The whole run when no library call raises\<close>


subsection \<open>The loop when a call raises\<close>




text \<open>
  The handlers do not catch everything: an exception that derives from \<open>BaseException\<close>
  only and is not a \<open>KeyboardInterrupt\<close> would pass both. No library call raises one.
\<close>

lemma except_typing_passes_SystemExit:
  "except_typing (Exn SystemExit_c m) tr = (Inl (Exn SystemExit_c m), tr)"
  by (simp add: except_typing_def isinstance_def issubclass_def)




subsection \<open>Claims about the typer\<close>










section \<open>Properties of the single-instance guard\<close>

subsection \<open>What one call of the guard comes to\<close>

lemma fileno_fresh:
  "fileno (p\<lparr>files := files p @ [True], LOCK_FILE_HANDLE := h\<rparr>) (length (files p))
     = Inr (length (files p))"
  by (simp add: fileno_def is_open_def)

lemma with_open_lock_file_eq:
  "with_open_lock_file os_try_lock env pid w =
     (if open_fails env then (Inl (Exn OSError_c ''open failed''), w)
      else (if close_fails env then Inl (Exn OSError_c ''close failed'')
            else Inr (granted env pid w),
            after_with env pid w))"
proof (cases w)
  case (Pair os p)
  show ?thesis
  proof (cases "open_fails env")
    case True
    then show ?thesis by (simp add: with_open_lock_file_def open_lock_file_def)
  next
    case False
    show ?thesis
    proof (cases "lock_holder os")
      case None
      with Pair False show ?thesis
        by (cases "lock_fails env"; cases "close_fails env")
           (simp_all add: with_open_lock_file_def open_lock_file_def os_try_lock_def
              fileno_def is_open_def try_except_def isinstance_def issubclass_def
              file_close_def granted_def after_with_def Let_def)
    next
      case (Some h)
      with Pair False show ?thesis
        by (cases "lock_fails env"; cases "close_fails env"; cases "h = (pid, length (files p))")
           (simp_all add: with_open_lock_file_def open_lock_file_def os_try_lock_def
              fileno_def is_open_def try_except_def isinstance_def issubclass_def
              file_close_def granted_def after_with_def Let_def)
    qed
  qed
qed

lemma ensure_single_instance_eq:
  "ensure_single_instance env pid w =
     (if primitive_unavailable env \<or> open_fails env then (Inr False, w)
      else (Inr (granted env pid w \<and> \<not> close_fails env), after_with env pid w))"
  by (cases "win32 env")
     (simp_all add: ensure_single_instance_def primitive_unavailable_def
        msvcrt_locking_NBLCK_def fcntl_flock_EX_NB_def with_open_lock_file_eq
        try_except_def isinstance_def issubclass_def)

subsection \<open>\<open>release_lock\<close> by the state of the handle\<close>

lemma sound_sound_env: "sound (sound_env w32)"
  by (simp add: sound_def sound_env_def primitive_unavailable_def)

lemma release_lock_None:
  "LOCK_FILE_HANDLE (snd w) = None \<Longrightarrow> release_lock env pid w = (Inr (), w)"
  by (simp add: release_lock_def)

lemma platform_unlock_closed:
  assumes "\<not> is_open (snd w) h" "\<not> primitive_unavailable env"
  shows "platform_unlock env pid h w = (Inl (Exn ValueError_c ''I/O operation on closed file''), w)"
  using assms
  by (cases "win32 env")
     (simp_all add: platform_unlock_def primitive_unavailable_def msvcrt_locking_UNLCK_def
        fcntl_flock_UN_def os_unlock_def fileno_def try_except_def isinstance_def issubclass_def)

lemma release_lock_closed:
  assumes "LOCK_FILE_HANDLE (snd w) = Some h" "\<not> is_open (snd w) h" "\<not> primitive_unavailable env"
  shows "release_lock env pid w = (Inl (Exn ValueError_c ''I/O operation on closed file''), w)"
  using assms
  by (simp add: release_lock_def platform_unlock_closed try_except_def isinstance_def
        issubclass_def)

lemma platform_unlock_open:
  assumes "is_open (snd w) h"
  shows "\<exists>os'. platform_unlock env pid h w = (Inr (), (os', snd w))"
  using assms
  by (cases "win32 env"; cases "msvcrt_importable env"; cases "fcntl_importable env";
      cases "unlock_fails env"; cases "lock_holder (fst w) = Some (pid, h)")
     (simp_all add: platform_unlock_def msvcrt_locking_UNLCK_def
        fcntl_flock_UN_def os_unlock_def fileno_def try_except_def isinstance_def issubclass_def
        prod_eq_iff)

lemma release_lock_open:
  assumes "LOCK_FILE_HANDLE (snd w) = Some h" "is_open (snd w) h"
  shows "fst (release_lock env pid w) = Inr ()"
proof -
  obtain os' where u: "platform_unlock env pid h w = (Inr (), (os', snd w))"
    using platform_unlock_open [OF assms(2)] by blast
  show ?thesis
    using assms u
    by (cases "close_fails env"; cases "remove_fails env"; cases "lock_file_exists os'")
       (simp_all add: release_lock_def file_close_def os_remove_def try_except_def
          isinstance_def issubclass_def Let_def)
qed

lemma startup_attempt_sound:
  assumes "sound env" "lock_holder (os m) = None"
  shows "fst (startup_attempt env pid m) = Inr True
       \<and> lock_holder (os (snd (startup_attempt env pid m))) = None"
  using assms
  by (simp add: startup_attempt_def ensure_single_instance_eq sound_def granted_def
        after_with_def)

lemma startup_attempts_all_acquire:
  assumes "list_all (\<lambda>a. sound (fst a)) as" "lock_holder (os m) = None"
  shows "fst (startup_attempts as m) = map (\<lambda>a. Inr True) as"
  using assms
proof (induction as arbitrary: m)
  case Nil
  show ?case by simp
next
  case (Cons a as)
  obtain r m1 where a: "startup_attempt (fst a) (snd a) m = (r, m1)"
    by (cases "startup_attempt (fst a) (snd a) m")
  with startup_attempt_sound [of "fst a" m "snd a"] Cons.prems
  have r: "r = Inr True" and m1: "lock_holder (os m1) = None"
    by simp_all
  obtain rs m2 where b: "startup_attempts as m1 = (rs, m2)"
    by (cases "startup_attempts as m1")
  with Cons.IH [OF _ m1] Cons.prems have "rs = map (\<lambda>a. Inr True) as"
    by simp
  with a b r show ?case by simp
qed

subsection \<open>Claims about the guard\<close>

text \<open>
  C1 does not hold of the code. The guard takes the lock inside
  \<open>with open(...) as lock_file\<close> and returns from inside the block, which closes the
  file and so gives the lock up again: when the guard of the first process has returned
  \<open>True\<close>, nothing holds the lock. Two processes started one after the other, on a host
  where every call works, both get \<open>True\<close>, on the POSIX branch and on the Windows
  branch.
\<close>

theorem two_startups_both_acquire:
  "fst (startup_attempts [(sound_env False, 1), (sound_env False, 2)] boot)
     = [Inr True, Inr True]
   \<and> fst (startup_attempts [(sound_env True, 1), (sound_env True, 2)] boot)
     = [Inr True, Inr True]
   \<and> lock_holder (os (snd (startup_attempt (sound_env False) 1 boot))) = None"
proof -
  have h: "lock_holder (os boot) = None"
    by (simp add: boot_def idle_os_def)
  have 1: "fst (startup_attempts [(sound_env w32, 1), (sound_env w32, 2)] boot)
             = [Inr True, Inr True]" for w32
    using startup_attempts_all_acquire [of "[(sound_env w32, 1), (sound_env w32, 2)]" boot] h
    by (simp add: sound_sound_env)
  from 1 startup_attempt_sound [OF sound_sound_env h] show ?thesis by simp
qed

text \<open>
  C3 does not hold of the code. After the guard has returned \<open>True\<close> and registered
  \<open>release_lock\<close>, the handle is a closed file object, which is true as a condition;
  the unlock call asks it for its file number, that raises \<open>ValueError\<close>, and no handler
  of \<open>release_lock\<close> catches \<open>ValueError\<close>: it leaves \<open>release_lock\<close>. Both branches.
\<close>

theorem release_lock_raises_after_guard:
  "fst (ensure_single_instance (sound_env False) 1 (idle_os, fresh_proc)) = Inr True
   \<and> fst (release_lock (sound_env False) 1
            (snd (ensure_single_instance (sound_env False) 1 (idle_os, fresh_proc))))
       = Inl (Exn ValueError_c ''I/O operation on closed file'')
   \<and> fst (ensure_single_instance (sound_env True) 1 (idle_os, fresh_proc)) = Inr True
   \<and> fst (release_lock (sound_env True) 1
            (snd (ensure_single_instance (sound_env True) 1 (idle_os, fresh_proc))))
       = Inl (Exn ValueError_c ''I/O operation on closed file'')"
proof -
  have "fst (ensure_single_instance (sound_env w32) 1 (idle_os, fresh_proc)) = Inr True
   \<and> fst (release_lock (sound_env w32) 1
            (snd (ensure_single_instance (sound_env w32) 1 (idle_os, fresh_proc))))
       = Inl (Exn ValueError_c ''I/O operation on closed file'')" for w32
  proof -
    let ?w = "snd (ensure_single_instance (sound_env w32) 1 (idle_os, fresh_proc))"
    have s: "sound (sound_env w32)" by (rule sound_sound_env)
    then have u: "\<not> primitive_unavailable (sound_env w32)" by (simp add: sound_def)
    have r: "fst (ensure_single_instance (sound_env w32) 1 (idle_os, fresh_proc)) = Inr True"
      using s by (simp add: ensure_single_instance_eq sound_def granted_def idle_os_def)
    have hd: "LOCK_FILE_HANDLE (snd ?w) = Some 0"
      using s by (simp add: ensure_single_instance_eq sound_def after_with_def fresh_proc_def)
    have cl: "\<not> is_open (snd ?w) 0"
      using s by (simp add: ensure_single_instance_eq sound_def after_with_def fresh_proc_def
                    is_open_def)
    from r release_lock_closed [OF hd cl u] show ?thesis by simp
  qed
  then show ?thesis by blast
qed

text \<open>
  C4. When another process holds the lock, when the lock call or \<open>open\<close> fails with an
  I/O error, or when the locking module of the host's branch cannot be imported,
  \<open>ensure_single_instance\<close> returns \<open>False\<close>: it does not raise and does not return
  \<open>True\<close>.
\<close>

theorem fail_closed:
  assumes "held_by_other pid (fst w) \<or> lock_fails env \<or> open_fails env
           \<or> primitive_unavailable env"
  shows "fst (ensure_single_instance env pid w) = Inr False"
  using assms
  by (auto simp: ensure_single_instance_eq granted_def held_by_other_def split: option.splits)

theorem fail_closed_witness:
  "held_by_other 2 (fst (held_os, fresh_proc))
   \<and> fst (ensure_single_instance (sound_env False) 2 (held_os, fresh_proc)) = Inr False
   \<and> lock_fails ((sound_env False)\<lparr>lock_fails := True\<rparr>)
   \<and> fst (ensure_single_instance ((sound_env False)\<lparr>lock_fails := True\<rparr>) 1 (idle_os, fresh_proc))
       = Inr False
   \<and> primitive_unavailable ((sound_env True)\<lparr>msvcrt_importable := False\<rparr>)
   \<and> fst (ensure_single_instance ((sound_env True)\<lparr>msvcrt_importable := False\<rparr>) 1
            (idle_os, fresh_proc)) = Inr False"
proof -
  have a: "held_by_other 2 (fst (held_os, fresh_proc))"
    by (simp add: held_by_other_def held_os_def)
  have b: "lock_fails ((sound_env False)\<lparr>lock_fails := True\<rparr>)"
    by simp
  have c: "primitive_unavailable ((sound_env True)\<lparr>msvcrt_importable := False\<rparr>)"
    by (simp add: primitive_unavailable_def sound_env_def)
  from a have 1: "fst (ensure_single_instance (sound_env False) 2 (held_os, fresh_proc)) = Inr False"
    by (intro fail_closed) simp
  from b have 2: "fst (ensure_single_instance ((sound_env False)\<lparr>lock_fails := True\<rparr>) 1
                    (idle_os, fresh_proc)) = Inr False"
    by (intro fail_closed) simp
  from c have 3: "fst (ensure_single_instance ((sound_env True)\<lparr>msvcrt_importable := False\<rparr>) 1
                    (idle_os, fresh_proc)) = Inr False"
    by (intro fail_closed) simp
  from a b c 1 2 3 show ?thesis by simp
qed

text \<open>
  C9. \<open>ensure_single_instance\<close> always returns a boolean, and when it has returned no
  open lock-file handle is left: a handle that was \<open>None\<close> or closed before is \<open>None\<close>
  or closed after, every file object open after the call was open before it, and after
  a \<open>True\<close> the global holds a file object that is closed.
\<close>

theorem no_open_handle_survives:
  "(\<exists>b. fst (ensure_single_instance env pid w) = Inr b)
   \<and> (handle_closed (snd w) \<longrightarrow> handle_closed (snd (snd (ensure_single_instance env pid w))))
   \<and> (is_open (snd (snd (ensure_single_instance env pid w))) f \<longrightarrow> is_open (snd w) f)
   \<and> (fst (ensure_single_instance env pid w) = Inr True \<longrightarrow>
        (\<exists>h. LOCK_FILE_HANDLE (snd (snd (ensure_single_instance env pid w))) = Some h
            \<and> \<not> is_open (snd (snd (ensure_single_instance env pid w))) h))"
proof (cases "primitive_unavailable env \<or> open_fails env")
  case True
  then show ?thesis by (auto simp: ensure_single_instance_eq)
next
  case False
  then show ?thesis
    by (auto simp: ensure_single_instance_eq after_with_def handle_closed_def is_open_def
          nth_append)
qed

theorem no_open_handle_survives_witness:
  "handle_closed (snd (idle_os, fresh_proc))
   \<and> fst (ensure_single_instance (sound_env False) 1 (idle_os, fresh_proc)) = Inr True
   \<and> LOCK_FILE_HANDLE (snd (snd (ensure_single_instance (sound_env False) 1 (idle_os, fresh_proc))))
       = Some 0
   \<and> \<not> is_open (snd (snd (ensure_single_instance (sound_env False) 1 (idle_os, fresh_proc)))) 0
   \<and> handle_closed (snd (snd (ensure_single_instance (sound_env False) 1 (idle_os, fresh_proc))))"
proof -
  let ?r = "ensure_single_instance (sound_env False) 1 (idle_os, fresh_proc)"
  have a: "handle_closed (snd (idle_os, fresh_proc))"
    by (simp add: handle_closed_def fresh_proc_def)
  have b: "fst ?r = Inr True"
    by (simp add: ensure_single_instance_eq granted_def sound_env_def idle_os_def
          primitive_unavailable_def)
  have c: "LOCK_FILE_HANDLE (snd (snd ?r)) = Some 0"
    by (simp add: ensure_single_instance_eq after_with_def sound_env_def fresh_proc_def
          primitive_unavailable_def)
  from no_open_handle_survives [of "sound_env False" 1 "(idle_os, fresh_proc)" 0] a b c
  have "handle_closed (snd (snd ?r)) \<and> \<not> is_open (snd (snd ?r)) 0"
    by auto
  with a b c show ?thesis by simp
qed

section \<open>Properties of the entry point\<close>





text \<open>The other branch, for comparison: a single instance starts the thread and the tray.\<close>

lemma first_instance_starts:
  assumes "fst (ensure_single_instance env pid w) = Inr True" "encodes running_msg"
  shows "fst (fst (main encodes env tray_status pid w))
           = [MPrint running_msg, StartListenerThread, RunTray]"
  using assms
  by (cases "ensure_single_instance env pid w") (simp add: main_def py_print_running_msg)

section \<open>Properties of the hotkey listener\<close>

lemma listener_completions:
  "st = P \<inter> keys \<Longrightarrow>
     listener canonical keys evs st = completions keys (map (canonical_event canonical) evs) P"
proof (induction evs arbitrary: st P)
  case Nil
  show ?case by simp
next
  case (Cons e evs)
  show ?case
  proof (cases e)
    case (Press r)
    obtain st1 fired where hp: "hotkey_press keys (canonical r) st = (st1, fired)"
      by (cases "hotkey_press keys (canonical r) st")
    have st': "st1 = insert (canonical r) P \<inter> keys"
      using Cons.prems hp by (auto simp: hotkey_press_def split: if_splits)
    have fired: "fired = (keys \<subseteq> insert (canonical r) P \<and> \<not> keys \<subseteq> P)"
      using Cons.prems hp by (auto simp: hotkey_press_def split: if_splits)
    show ?thesis
      using Press Cons.IH [OF st'] fired hp
      by (simp add: for_canonical_def)
  next
    case (Release r)
    have st': "hotkey_release keys (canonical r) st = (P - {canonical r}) \<inter> keys"
      using Cons.prems by (auto simp: hotkey_release_def)
    show ?thesis
      using Release Cons.IH [OF st']
      by (auto simp: for_canonical_def)
  qed
qed

lemma count_completions:
  "count_list (completions keys evs P) True = maximal_runs (keys \<subseteq> P) (complete_signal keys evs P)"
  by (induction evs arbitrary: P) auto

lemma listener_held:
  "list_all (\<lambda>e. \<not> releases_member keys (canonical_event canonical e)) evs \<Longrightarrow>
     listener canonical keys evs keys = replicate (length evs) False"
proof (induction evs)
  case Nil
  show ?case by simp
next
  case (Cons e evs)
  then show ?case
    by (cases e) (auto simp: for_canonical_def hotkey_press_def hotkey_release_def)
qed

lemma listener_presses:
  "distinct (map canonical rs) \<Longrightarrow> rs \<noteq> [] \<Longrightarrow> set (map canonical rs) \<inter> st = {} \<Longrightarrow>
   st \<union> set (map canonical rs) = keys \<Longrightarrow>
     listener canonical keys (map Press rs) st = replicate (length rs - 1) False @ [True]"
proof (induction rs arbitrary: st)
  case Nil
  then show ?case by simp
next
  case (Cons r rs)
  show ?case
  proof (cases rs)
    case Nil
    with Cons.prems show ?thesis
      by (auto simp: for_canonical_def hotkey_press_def)
  next
    case (Cons r' rs')
    have "canonical r' \<in> keys" "canonical r' \<notin> insert (canonical r) st"
      using Cons.prems Cons by auto
    then have ne: "insert (canonical r) st \<noteq> keys"
      by blast
    have "canonical r \<in> keys" "canonical r \<notin> st"
      using Cons.prems by auto
    with ne have step: "hotkey_press keys (canonical r) st = (insert (canonical r) st, False)"
      by (simp add: hotkey_press_def)
    have "listener canonical keys (map Press rs) (insert (canonical r) st)
            = replicate (length rs - 1) False @ [True]"
      using Cons.prems Cons by (intro Cons.IH) auto
    with step Cons show ?thesis
      by (simp add: for_canonical_def)
  qed
qed

text \<open>
  C6. For every chord and every sequence of raw events, the callback fires exactly at the
  events at which the chord becomes complete in the canonical events: all members down
  after the event, not all before. For a chord that is not empty the number of firings
  is the number of maximal intervals in which the whole chord is down. Pressing the
  members in any order, each once, fires at the last press and only there. While the
  chord is complete and no member is released, nothing fires.
\<close>

theorem chord_completion:
  "listener canonical keys evs {} = completions keys (map (canonical_event canonical) evs) {}
   \<and> (keys \<noteq> {} \<longrightarrow>
        count_list (listener canonical keys evs {}) True
          = maximal_runs False (complete_signal keys (map (canonical_event canonical) evs) {}))
   \<and> (distinct (map canonical rs) \<and> rs \<noteq> [] \<and> set (map canonical rs) = keys \<longrightarrow>
        listener canonical keys (map Press rs) {} = replicate (length rs - 1) False @ [True])
   \<and> (list_all (\<lambda>e. \<not> releases_member keys (canonical_event canonical e)) evs \<longrightarrow>
        listener canonical keys evs keys = replicate (length evs) False)"
proof -
  have a: "listener canonical keys evs {} = completions keys (map (canonical_event canonical) evs) {}"
    by (rule listener_completions) simp
  have b: "keys \<noteq> {} \<Longrightarrow> count_list (listener canonical keys evs {}) True
          = maximal_runs False (complete_signal keys (map (canonical_event canonical) evs) {})"
    by (simp add: a count_completions)
  have c: "distinct (map canonical rs) \<and> rs \<noteq> [] \<and> set (map canonical rs) = keys \<Longrightarrow>
        listener canonical keys (map Press rs) {} = replicate (length rs - 1) False @ [True]"
    by (rule listener_presses) auto
  from a b c listener_held [of keys canonical evs] show ?thesis by blast
qed

theorem chord_completion_witness:
  "listener canonical_key HOTKEY
      [Press Alt_l, Press Ctrl_r, Press Char_t, Press Char_t, Release Char_t, Press Char_t] {}
     = [False, False, True, False, False, True]
   \<and> HOTKEY \<noteq> {}
   \<and> maximal_runs False (complete_signal HOTKEY (map (canonical_event canonical_key)
        [Press Alt_l, Press Ctrl_r, Press Char_t, Press Char_t, Release Char_t, Press Char_t]) {})
       = 2
   \<and> distinct (map canonical_key [Char_t, Alt_r, Ctrl_l])
   \<and> set (map canonical_key [Char_t, Alt_r, Ctrl_l]) = HOTKEY
   \<and> listener canonical_key HOTKEY (map Press [Char_t, Alt_r, Ctrl_l]) {} = [False, False, True]
   \<and> list_all (\<lambda>e. \<not> releases_member HOTKEY (canonical_event canonical_key e))
        [Press Char_t, Press Char_x, Release Char_x, Press Ctrl_l]
   \<and> listener canonical_key HOTKEY [Press Char_t, Press Char_x, Release Char_x, Press Ctrl_l] HOTKEY
       = [False, False, False, False]"
proof -
  let ?evs = "[Press Alt_l, Press Ctrl_r, Press Char_t, Press Char_t, Release Char_t, Press Char_t]"
  let ?rs = "[Char_t, Alt_r, Ctrl_l]"
  let ?held = "[Press Char_t, Press Char_x, Release Char_x, Press Ctrl_l]"
  have ne: "HOTKEY \<noteq> {}"
    by (simp add: HOTKEY_def)
  have d: "distinct (map canonical_key ?rs)" "?rs \<noteq> []" "set (map canonical_key ?rs) = HOTKEY"
    by (auto simp: HOTKEY_def)
  have h: "list_all (\<lambda>e. \<not> releases_member HOTKEY (canonical_event canonical_key e)) ?held"
    by (simp add: HOTKEY_def)
  have c: "completions HOTKEY (map (canonical_event canonical_key) ?evs) {}
             = [False, False, True, False, False, True]"
    by (auto simp: HOTKEY_def)
  have 1: "listener canonical_key HOTKEY ?evs {} = [False, False, True, False, False, True]"
    using chord_completion [of canonical_key HOTKEY ?evs ?rs] c by simp
  have 2: "maximal_runs False (complete_signal HOTKEY (map (canonical_event canonical_key) ?evs) {}) = 2"
    using chord_completion [of canonical_key HOTKEY ?evs ?rs] ne 1 by simp
  have 3: "listener canonical_key HOTKEY (map Press ?rs) {} = [False, False, True]"
    using chord_completion [of canonical_key HOTKEY ?evs ?rs] d by simp
  have 4: "listener canonical_key HOTKEY ?held HOTKEY = [False, False, False, False]"
    using chord_completion [of canonical_key HOTKEY ?held ?rs] h by simp
  from ne d h 1 2 3 4 show ?thesis by blast
qed

end
